theory Spec2Isabelle
  imports Main
begin

section \<open>The accounts store of the wallet application\<close>

text \<open>
  The accounts store (\<^verbatim>\<open>useAccountsStore\<close>) is a zustand store whose state is
  \<^verbatim>\<open>{ accounts: Account[], tags: string[] }\<close>. Its actions read the current state
  with \<^verbatim>\<open>get()\<close> and replace it with \<^verbatim>\<open>set(...)\<close>, most of them through immer's
  \<^verbatim>\<open>produce\<close>. Two actions (\<^verbatim>\<open>getTx\<close>, \<^verbatim>\<open>getUtxo\<close>) also mutate, in place, the account
  object they found in the state, so the embedding keeps JavaScript's objects apart from
  the references to them: account objects live in a heap, and the state holds references.
\<close>

subsection \<open>JavaScript values\<close>

text \<open>
  \<^verbatim>\<open>Array.prototype.find\<close> answers the first element that satisfies the predicate, or
  \<^verbatim>\<open>undefined\<close>; it never answers \<^verbatim>\<open>null\<close> for an array of objects. The source
  compares such results with \<^verbatim>\<open>null\<close> and with \<^verbatim>\<open>undefined\<close>, so both are values of
  the model. \<^verbatim>\<open>Array.prototype.findIndex\<close> answers the first index, or \<open>-1\<close>.
\<close>

datatype 'a js = Undefined | Null | Obj 'a

fun find_js :: "('a \<Rightarrow> bool) \<Rightarrow> 'a list \<Rightarrow> 'a js" where
  "find_js p [] = Undefined"
| "find_js p (x # xs) = (if p x then Obj x else find_js p xs)"

fun findIndex :: "('a \<Rightarrow> bool) \<Rightarrow> 'a list \<Rightarrow> int" where
  "findIndex p [] = - 1"
| "findIndex p (x # xs) =
     (if p x then 0
      else (let i = findIndex p xs in if i = - 1 then - 1 else i + 1))"

text \<open>
  The errors a call can end with: a \<^verbatim>\<open>TypeError\<close> (a property read or written on
  \<^verbatim>\<open>undefined\<close>), a \<^verbatim>\<open>SyntaxError\<close> (raised by a parser), and the rejection of a
  promise by an external capability (the chain indexer, the wallet library).
\<close>

datatype error = TypeError | SyntaxError | Rejected string

subsection \<open>The data model\<close>

text \<open>
  The model types of the application (\<^verbatim>\<open>Transaction\<close>, \<^verbatim>\<open>Utxo\<close>, \<^verbatim>\<open>Account\<close>) are
  imported by the store; their fields are the ones the store reads and writes. A field
  whose name is taken in HOL carries the name of its record. Amounts, sizes and time
  values are JavaScript numbers, here integers; an output index that is negative is kept
  representable, since an array read at it answers \<^verbatim>\<open>undefined\<close>.
\<close>

record TxVout =
  out_value :: int
  address :: "string option"

datatype TxType = send | receive

record Transaction =
  tx_id :: string
  tx_type :: TxType
  sent :: int
  received :: int
  tx_timestamp :: int
  tx_size :: int
  tx_vout :: "TxVout list"

datatype Keychain = external | internal

record Utxo =
  txid :: string
  vout :: int
  utxo_value :: int
  timestamp :: int
  addressTo :: "string option"
  keychain :: Keychain
  label :: "string option"

text \<open>
  An account: \<open>summary\<close> has the type the wallet library gives it, and \<open>other\<close> stands
  for the fields the store never looks at (descriptors, script version, seed words).
\<close>

record ('s, 'x) Account =
  name :: string
  transactions :: "Transaction list"
  utxos :: "Utxo list"
  summary :: 's
  other :: 'x

subsection \<open>The store and the heap of account objects\<close>

type_synonym ref = nat

record AccountsState =
  accounts :: "ref list"
  tags :: "string list"

text \<open>
  \<open>heap\<close> gives the object behind each reference, \<open>next_ref\<close> is the first reference not
  yet allocated, \<open>state\<close> is what \<^verbatim>\<open>get()\<close> answers. The arrays inside an account object
  are taken as part of the object.
\<close>

record ('s, 'x) world =
  heap :: "ref \<Rightarrow> ('s, 'x) Account"
  next_ref :: ref
  state :: AccountsState

subsection \<open>Synchronous actions\<close>

definition getTags :: "('s, 'x) world \<Rightarrow> string list" where
  "getTags w = tags (state w)"

definition setTags :: "string list \<Rightarrow> ('s, 'x) world \<Rightarrow> ('s, 'x) world" where
  "setTags ts w = w\<lparr>state := (state w)\<lparr>tags := ts\<rparr>\<rparr>"

definition getCurrentAccount :: "('s, 'x) world \<Rightarrow> string \<Rightarrow> ref js" where
  "getCurrentAccount w nm = find_js (\<lambda>account. name (heap w account) = nm) (accounts (state w))"

text \<open>\<^verbatim>\<open>!!x\<close> is false for \<^verbatim>\<open>undefined\<close> and \<^verbatim>\<open>null\<close>, true for an object.\<close>

definition hasAccountWithName :: "('s, 'x) world \<Rightarrow> string \<Rightarrow> bool" where
  "hasAccountWithName w nm =
     (case getCurrentAccount w nm of Obj _ \<Rightarrow> True | _ \<Rightarrow> False)"

text \<open>
  \<^verbatim>\<open>addAccount\<close>: the recipe pushes the caller's object on a draft of the accounts array;
  the next state holds the old references followed by the new one.
\<close>

definition addAccount :: "ref \<Rightarrow> ('s, 'x) world \<Rightarrow> ('s, 'x) world" where
  "addAccount account w =
     w\<lparr>state := (state w)\<lparr>accounts := accounts (state w) @ [account]\<rparr>\<rparr>"

text \<open>
  \<^verbatim>\<open>updateAccount\<close>: the recipe looks for the first account of the same name and, when
  there is one (\<^verbatim>\<open>index !== -1\<close>), stores the caller's object at that index.
\<close>

definition updateAccount :: "ref \<Rightarrow> ('s, 'x) world \<Rightarrow> ('s, 'x) world" where
  "updateAccount account w =
     (let index = findIndex (\<lambda>account'. name (heap w account') = name (heap w account))
                    (accounts (state w))
      in if index \<noteq> - 1
         then w\<lparr>state := (state w)\<lparr>accounts := (accounts (state w))[nat index := account]\<rparr>\<rparr>
         else w)"

text \<open>
  \<^verbatim>\<open>deleteAccounts\<close>: \<^verbatim>\<open>set(() => ({ accounts: [] }))\<close>. zustand merges the partial
  state into the current one, so only the \<open>accounts\<close> field is replaced.
\<close>

definition deleteAccounts :: "('s, 'x) world \<Rightarrow> ('s, 'x) world" where
  "deleteAccounts w = w\<lparr>state := (state w)\<lparr>accounts := []\<rparr>\<rparr>"

subsection \<open>External capabilities\<close>

text \<open>
  The store calls code it imports: the chain indexer's client
  (\<^verbatim>\<open>MempoolOracle.getTransaction\<close>), the wallet library's bridge (\<^verbatim>\<open>syncWallet\<close>,
  \<^verbatim>\<open>getWalletData\<close>), the server configuration (\<^verbatim>\<open>getBlockchainConfig\<close>) and the
  blockchain store. Each is a parameter of the action that calls it: a function of the
  arguments the source passes, answering a value or the error the promise is rejected
  with. They are handed neither the accounts store nor an account object.
\<close>

record TxOut =
  txout_value :: int
  scriptpubkey_address :: "string option"

record TxStatus =
  block_time :: int

record TxData =
  data_txid :: string
  data_size :: int
  status :: TxStatus
  data_vout :: "TxOut list"

record ('b, 'n) BlockchainState =
  backend :: 'b
  network :: 'n
  retries :: int
  stopGap :: int
  timeout :: int
  url :: string

record SyncOpts =
  opts_retries :: int
  opts_stopGap :: int
  opts_timeout :: int

record 's WalletData =
  wd_transactions :: "Transaction list"
  wd_utxos :: "Utxo list"
  wd_summary :: 's

subsection \<open>Asynchronous actions\<close>

text \<open>
  An asynchronous action, run without interleaving, answers a value or an error together
  with the world it leaves: what was mutated before an error was raised stays mutated.
  Reading a property of \<^verbatim>\<open>undefined\<close> raises \<^verbatim>\<open>TypeError\<close>.

  \<^verbatim>\<open>account.transactions.push(t)\<close> and \<^verbatim>\<open>account.utxos.push(u)\<close> write to the object
  that \<open>account\<close> refers to, which is the object the state refers to. immer can freeze
  the objects of a state it has produced, and a push on a frozen array raises
  \<^verbatim>\<open>TypeError\<close>; the objects of the model are not frozen, as those of a state read from
  storage are not.
\<close>

definition push_transaction :: "ref \<Rightarrow> Transaction \<Rightarrow> ('s, 'x) world \<Rightarrow> ('s, 'x) world" where
  "push_transaction account t w =
     w\<lparr>heap := (heap w)(account :=
         (heap w account)\<lparr>transactions := transactions (heap w account) @ [t]\<rparr>)\<rparr>"

definition push_utxo :: "ref \<Rightarrow> Utxo \<Rightarrow> ('s, 'x) world \<Rightarrow> ('s, 'x) world" where
  "push_utxo account u w =
     w\<lparr>heap := (heap w)(account :=
         (heap w account)\<lparr>utxos := utxos (heap w account) @ [u]\<rparr>)\<rparr>"

text \<open>
  \<^verbatim>\<open>getTx\<close>: the cached transaction is looked up with \<^verbatim>\<open>find\<close>, and the result is
  returned when it \<^verbatim>\<open>!== null\<close>; the fetch from the indexer follows that test.
\<close>

definition getTx ::
  "(string \<Rightarrow> string \<Rightarrow> error + TxData) \<Rightarrow> string \<Rightarrow> string \<Rightarrow> string \<Rightarrow>
   ('s, 'x) world \<Rightarrow> (error + Transaction js) \<times> ('s, 'x) world" where
  "getTx getTransaction url' accountName txid' w =
     (case getCurrentAccount w accountName of
        Obj account \<Rightarrow>
          (let transaction = find_js (\<lambda>tx. tx_id tx = txid') (transactions (heap w account))
           in if transaction \<noteq> Null then (Inr transaction, w)
              else
                (case getTransaction url' txid' of
                   Inl e \<Rightarrow> (Inl e, w)
                 | Inr data \<Rightarrow>
                     (let transaction' =
                            \<lparr>tx_id = data_txid data, tx_type = receive, sent = 0, received = 0,
                             tx_timestamp = block_time (status data), tx_size = data_size data,
                             tx_vout = map (\<lambda>out. \<lparr>out_value = txout_value out,
                                                    address = scriptpubkey_address out\<rparr>)
                                         (data_vout data)\<rparr>;
                          w1 = push_transaction account transaction' w;
                          w2 = updateAccount account w1
                      in (Inr (Obj transaction'), w2))))
      | _ \<Rightarrow> (Inl TypeError, w))"

text \<open>
  \<^verbatim>\<open>getUtxo\<close>: a cached UTXO (\<^verbatim>\<open>utxo !== undefined && utxo !== null\<close>) is returned as it
  is. Otherwise the transaction is asked of \<^verbatim>\<open>getTx\<close>; \<^verbatim>\<open>tx.vout[vout].value\<close> raises
  when \<open>tx\<close> is \<^verbatim>\<open>undefined\<close> or has no output at that index. The new UTXO has no label.
\<close>

definition getUtxo ::
  "(string \<Rightarrow> string \<Rightarrow> error + TxData) \<Rightarrow> string \<Rightarrow> string \<Rightarrow> string \<Rightarrow> int \<Rightarrow>
   ('s, 'x) world \<Rightarrow> (error + Utxo) \<times> ('s, 'x) world" where
  "getUtxo getTransaction url' accountName txid' vout' w =
     (case getCurrentAccount w accountName of
        Obj account \<Rightarrow>
          (case find_js (\<lambda>u. txid u = txid' \<and> vout u = vout') (utxos (heap w account)) of
             Obj utxo \<Rightarrow> (Inr utxo, w)
           | _ \<Rightarrow>
               (case getTx getTransaction url' accountName txid' w of
                  (Inl e, w1) \<Rightarrow> (Inl e, w1)
                | (Inr (Obj tx), w1) \<Rightarrow>
                    (if 0 \<le> vout' \<and> vout' < int (length (tx_vout tx))
                     then
                       (let utxo' =
                              \<lparr>txid = txid', vout = vout',
                               utxo_value = out_value (tx_vout tx ! nat vout'),
                               timestamp = tx_timestamp tx,
                               addressTo = address (tx_vout tx ! nat vout'),
                               keychain = external, label = None\<rparr>;
                            w2 = push_utxo account utxo' w1;
                            w3 = updateAccount account w2
                        in (Inr utxo', w3))
                     else (Inl TypeError, w1))
                | (Inr _, w1) \<Rightarrow> (Inl TypeError, w1)))
      | _ \<Rightarrow> (Inl TypeError, w))"

text \<open>
  The recipe of \<^verbatim>\<open>setUtxoLabel\<close>:
  \<^verbatim>\<open>state.accounts[index].utxos[utxoIndex].label = label\<close>, run by \<^verbatim>\<open>produce\<close> on a draft
  of the state. An index outside its array reads \<^verbatim>\<open>undefined\<close>, and the recipe raises;
  then nothing is set. Otherwise \<^verbatim>\<open>produce\<close> leaves the objects of the old state as they
  are: the account with the relabelled UTXO is a new object, and the next state refers to
  it. Assigning the label the UTXO already has changes nothing.
\<close>

definition produce_label ::
  "string \<Rightarrow> int \<Rightarrow> string \<Rightarrow> ('s, 'x) world \<Rightarrow> (error + unit) \<times> ('s, 'x) world" where
  "produce_label accountName utxoIndex label' w =
     (let index = findIndex (\<lambda>account. name (heap w account) = accountName)
                    (accounts (state w))
      in if index < 0 \<or> int (length (accounts (state w))) \<le> index then (Inl TypeError, w)
         else
           (let account = accounts (state w) ! nat index;
                us = utxos (heap w account)
            in if utxoIndex < 0 \<or> int (length us) \<le> utxoIndex then (Inl TypeError, w)
               else if label (us ! nat utxoIndex) = Some label' then (Inr (), w)
               else
                 (let account' = next_ref w
                  in (Inr (),
                      w\<lparr>heap := (heap w)(account' :=
                           (heap w account)\<lparr>utxos :=
                              us[nat utxoIndex := (us ! nat utxoIndex)\<lparr>label := Some label'\<rparr>]\<rparr>),
                        next_ref := Suc (next_ref w),
                        state := (state w)\<lparr>accounts :=
                           (accounts (state w))[nat index := account']\<rparr>\<rparr>))))"

text \<open>
  \<^verbatim>\<open>setUtxoLabel\<close>: when the UTXO is not cached it is resolved through \<^verbatim>\<open>getUtxo\<close>, and
  the index is then read from the same account object: \<^verbatim>\<open>account.utxos.length\<close>.
\<close>

definition setUtxoLabel ::
  "(string \<Rightarrow> string \<Rightarrow> error + TxData) \<Rightarrow> string \<Rightarrow> string \<Rightarrow> string \<Rightarrow> int \<Rightarrow> string \<Rightarrow>
   ('s, 'x) world \<Rightarrow> (error + unit) \<times> ('s, 'x) world" where
  "setUtxoLabel getTransaction url' accountName txid' vout' label' w =
     (case getCurrentAccount w accountName of
        Obj account \<Rightarrow>
          (let utxoIndex = findIndex (\<lambda>u. txid u = txid' \<and> vout u = vout')
                             (utxos (heap w account))
           in if utxoIndex = - 1
              then
                (case getUtxo getTransaction url' accountName txid' vout' w of
                   (Inl e, w1) \<Rightarrow> (Inl e, w1)
                 | (Inr _, w1) \<Rightarrow>
                     produce_label accountName (int (length (utxos (heap w1 account)))) label' w1)
              else produce_label accountName utxoIndex label' w)
      | _ \<Rightarrow> (Inl TypeError, w))"

text \<open>
  \<^verbatim>\<open>syncWallet\<close>: the wallet is synchronised with the configured backend, its data are
  read, and \<^verbatim>\<open>{ ...account, transactions, utxos, summary }\<close> is returned: a new object.
  The wallet library's \<^verbatim>\<open>syncWallet\<close> answers the wallet as synchronised.
\<close>

definition syncWallet ::
  "('wl \<Rightarrow> 'b \<Rightarrow> 'c \<Rightarrow> error + 'wl) \<Rightarrow> ('b \<Rightarrow> string \<Rightarrow> SyncOpts \<Rightarrow> 'c) \<Rightarrow>
   ('wl \<Rightarrow> 'n \<Rightarrow> error + 's WalletData) \<Rightarrow> ('b, 'n) BlockchainState \<Rightarrow> 'wl \<Rightarrow> ref \<Rightarrow>
   ('s, 'x) world \<Rightarrow> (error + ref) \<times> ('s, 'x) world" where
  "syncWallet bdk_syncWallet getBlockchainConfig getWalletData bc wallet account w =
     (let opts = \<lparr>opts_retries = retries bc, opts_stopGap = stopGap bc,
                  opts_timeout = timeout bc\<rparr>
      in case bdk_syncWallet wallet (backend bc)
                (getBlockchainConfig (backend bc) (url bc) opts) of
           Inl e \<Rightarrow> (Inl e, w)
         | Inr wallet' \<Rightarrow>
             (case getWalletData wallet' (network bc) of
                Inl e \<Rightarrow> (Inl e, w)
              | Inr d \<Rightarrow>
                  (let result = next_ref w
                   in (Inr result,
                       w\<lparr>heap := (heap w)(result :=
                            (heap w account)\<lparr>transactions := wd_transactions d,
                                             utxos := wd_utxos d,
                                             summary := wd_summary d\<rparr>),
                         next_ref := Suc (next_ref w)\<rparr>))))"

section \<open>The label import screen\<close>

text \<open>
  The screen holds the chosen import type and the pasted text. Importing parses the text
  (\<^verbatim>\<open>JSON.parse\<close> for the type \<^verbatim>\<open>'JSON'\<close>, \<^verbatim>\<open>CSVtoLabels\<close> otherwise), logs the labels,
  hands them to the store's import action and navigates back. The two parsers and the
  store's action are parameters; a parser answers labels or the error it raises.
\<close>

record ('st, 'l) Screen =
  store :: 'st
  console :: "'l list"
  went_back :: bool

definition importLabelsFromClipboard ::
  "(string \<Rightarrow> error + 'l) \<Rightarrow> (string \<Rightarrow> error + 'l) \<Rightarrow>
   (string \<Rightarrow> 'l \<Rightarrow> 'st \<Rightarrow> (error + unit) \<times> 'st) \<Rightarrow> string \<Rightarrow> string \<Rightarrow> string \<Rightarrow>
   ('st, 'l) Screen \<Rightarrow> (error + unit) \<times> ('st, 'l) Screen" where
  "importLabelsFromClipboard JSON_parse CSVtoLabels importLabelsToAccount
       importType importContent accountId ui =
     (case (if importType = ''JSON'' then JSON_parse importContent
            else CSVtoLabels importContent) of
        Inl e \<Rightarrow> (Inl e, ui)
      | Inr labels \<Rightarrow>
          (let ui1 = ui\<lparr>console := console ui @ [labels]\<rparr>
           in case importLabelsToAccount accountId labels (store ui1) of
                (Inl e, st) \<Rightarrow> (Inl e, ui1\<lparr>store := st\<rparr>)
              | (Inr _, st) \<Rightarrow> (Inr (), ui1\<lparr>store := st, went_back := True\<rparr>)))"

text \<open>
  Importing from a file: the file picker is asked for a file of the MIME type of the
  import type, and its content goes through the same parsers.
\<close>

definition importLabels ::
  "(string \<Rightarrow> error + string) \<Rightarrow> (string \<Rightarrow> error + 'l) \<Rightarrow> (string \<Rightarrow> error + 'l) \<Rightarrow>
   (string \<Rightarrow> 'l \<Rightarrow> 'st \<Rightarrow> (error + unit) \<times> 'st) \<Rightarrow> string \<Rightarrow> string \<Rightarrow>
   ('st, 'l) Screen \<Rightarrow> (error + unit) \<times> ('st, 'l) Screen" where
  "importLabels pickFile JSON_parse CSVtoLabels importLabelsToAccount importType accountId ui =
     (let type' = (if importType = ''JSON'' then ''application/json'' else ''text/csv'')
      in case pickFile type' of
           Inl e \<Rightarrow> (Inl e, ui)
         | Inr fileContent \<Rightarrow>
             (case (if importType = ''JSON'' then JSON_parse fileContent
                    else CSVtoLabels fileContent) of
                Inl e \<Rightarrow> (Inl e, ui)
              | Inr labels \<Rightarrow>
                  (case importLabelsToAccount accountId labels (store ui) of
                     (Inl e, st) \<Rightarrow> (Inl e, ui\<lparr>store := st\<rparr>)
                   | (Inr _, st) \<Rightarrow> (Inr (), ui\<lparr>store := st, went_back := True\<rparr>))))"

section \<open>Example stores\<close>

text \<open>
  A wallet \<open>W1\<close> that has cached the transaction \<open>a1\<close> (one output of 5000 sats) and no
  UTXO; a second, empty account object of the same name; an account \<open>W2\<close>. In
  \<open>world_W1\<close> and in \<open>world_three\<close> the store holds the first object only.
\<close>

definition tx_a1 :: Transaction where
  "tx_a1 = \<lparr>tx_id = ''a1'', tx_type = receive, sent = 0, received = 5000,
            tx_timestamp = 1700000000, tx_size = 225,
            tx_vout = [\<lparr>out_value = 5000, address = Some ''bc1qw''\<rparr>]\<rparr>"

definition utxo_a1 :: Utxo where
  "utxo_a1 = \<lparr>txid = ''a1'', vout = 0, utxo_value = 5000, timestamp = 1700000000,
              addressTo = Some ''bc1qw'', keychain = external, label = None\<rparr>"

definition account_W1 :: "(unit, unit) Account" where
  "account_W1 = \<lparr>name = ''W1'', transactions = [tx_a1], utxos = [], summary = (), other = ()\<rparr>"

definition account_W1_fresh :: "(unit, unit) Account" where
  "account_W1_fresh = \<lparr>name = ''W1'', transactions = [], utxos = [], summary = (), other = ()\<rparr>"

definition account_W2 :: "(unit, unit) Account" where
  "account_W2 = \<lparr>name = ''W2'', transactions = [], utxos = [], summary = (), other = ()\<rparr>"

definition world_W1 :: "(unit, unit) world" where
  "world_W1 = \<lparr>heap = (\<lambda>_. account_W1), next_ref = 1,
               state = \<lparr>accounts = [0], tags = []\<rparr>\<rparr>"

definition world_three :: "(unit, unit) world" where
  "world_three = \<lparr>heap = (\<lambda>_. account_W1)(1 := account_W1_fresh, 2 := account_W2),
                  next_ref = 3, state = \<lparr>accounts = [0], tags = []\<rparr>\<rparr>"

text \<open>
  A store of three accounts, \<open>W2\<close>, \<open>W1\<close> and a second \<open>W1\<close>, with two objects outside
  it: a synchronised \<open>W1\<close> and an account \<open>W3\<close>.
\<close>

definition account_W1_synced :: "(unit, unit) Account" where
  "account_W1_synced = \<lparr>name = ''W1'', transactions = [tx_a1], utxos = [utxo_a1],
                        summary = (), other = ()\<rparr>"

definition account_W3 :: "(unit, unit) Account" where
  "account_W3 = \<lparr>name = ''W3'', transactions = [], utxos = [], summary = (), other = ()\<rparr>"

definition world_four :: "(unit, unit) world" where
  "world_four = \<lparr>heap = (\<lambda>_. account_W2)(1 := account_W1, 2 := account_W1_fresh,
                           3 := account_W1_synced, 4 := account_W3),
                 next_ref = 5, state = \<lparr>accounts = [0, 1, 2], tags = []\<rparr>\<rparr>"

text \<open>An indexer that knows every transaction, and a configuration of the blockchain store.\<close>

definition indexer :: "string \<Rightarrow> string \<Rightarrow> error + TxData" where
  "indexer url' txid' =
     Inr \<lparr>data_txid = txid', data_size = 110, status = \<lparr>block_time = 1700000600\<rparr>,
          data_vout = [\<lparr>txout_value = 1200, scriptpubkey_address = Some ''bc1qx''\<rparr>]\<rparr>"

definition blockchain_signet :: "(string, string) BlockchainState" where
  "blockchain_signet = \<lparr>backend = ''electrum'', network = ''signet'', retries = 5,
                        stopGap = 20, timeout = 6, url = ''ssl://mempool.space:60602''\<rparr>"

text \<open>
  A wallet library for the examples: synchronising advances the wallet handle, and the
  wallet's data can be read once it is synchronised.
\<close>

definition sample_syncWallet :: "nat \<Rightarrow> string \<Rightarrow> string \<times> string \<times> SyncOpts \<Rightarrow> error + nat" where
  "sample_syncWallet wallet b config = Inr (Suc wallet)"

definition sample_getBlockchainConfig :: "string \<Rightarrow> string \<Rightarrow> SyncOpts \<Rightarrow> string \<times> string \<times> SyncOpts" where
  "sample_getBlockchainConfig b u opts = (b, u, opts)"

definition sample_getWalletData :: "nat \<Rightarrow> string \<Rightarrow> error + unit WalletData" where
  "sample_getWalletData wallet n =
     (if wallet = 1
      then Inr \<lparr>wd_transactions = [tx_a1], wd_utxos = [utxo_a1], wd_summary = ()\<rparr>
      else Inl (Rejected ''wallet not synchronised''))"

section \<open>Facts about the array functions\<close>

lemma find_js_not_Null: "find_js p xs \<noteq> Null"
  by (induction xs) auto

lemma findIndex_ge: "- 1 \<le> findIndex p xs"
  by (induction xs) (auto simp: Let_def)

lemma find_js_none: "find_js p xs = Undefined \<longleftrightarrow> (\<forall>x \<in> set xs. \<not> p x)"
  by (induction xs) auto

lemma findIndex_none: "findIndex p xs = - 1 \<longleftrightarrow> (\<forall>x \<in> set xs. \<not> p x)"
proof (induction xs)
  case Nil
  show ?case by simp
next
  case (Cons x xs)
  have "- 1 \<le> findIndex p xs" by (rule findIndex_ge)
  with Cons show ?case by (auto simp: Let_def)
qed

lemma find_js_first:
  assumes "\<forall>x \<in> set pre. \<not> p x" and "p b"
  shows "find_js p (pre @ b # post) = Obj b"
  using assms by (induction pre) auto

lemma find_js_first_or_same:
  assumes "\<forall>x \<in> set pre. p x \<longrightarrow> x = n" and "p n"
  shows "find_js p (pre @ n # post) = Obj n"
  using assms by (induction pre) auto

lemma findIndex_first:
  assumes "\<forall>x \<in> set pre. \<not> p x" and "p b"
  shows "findIndex p (pre @ b # post) = int (length pre)"
  using assms by (induction pre) (auto simp: Let_def)

lemma find_js_split:
  assumes "find_js p xs = Obj b"
  shows "\<exists>pre post. xs = pre @ b # post \<and> (\<forall>x \<in> set pre. \<not> p x) \<and> p b"
  using assms
proof (induction xs)
  case Nil
  then show ?case by simp
next
  case (Cons x xs)
  show ?case
  proof (cases "p x")
    case True
    with Cons.prems have "x = b" by simp
    with True have "x # xs = [] @ b # xs \<and> (\<forall>y \<in> set []. \<not> p y) \<and> p b" by simp
    then show ?thesis by blast
  next
    case False
    with Cons obtain pre post where
      "xs = pre @ b # post" "\<forall>y \<in> set pre. \<not> p y" "p b" by auto
    with False have
      "x # xs = (x # pre) @ b # post \<and> (\<forall>y \<in> set (x # pre). \<not> p y) \<and> p b" by simp
    then show ?thesis by blast
  qed
qed

text \<open>\<^verbatim>\<open>find\<close> and \<^verbatim>\<open>findIndex\<close> stop at the same element.\<close>

lemma find_js_findIndex:
  assumes "find_js p xs = Obj b"
  shows "\<exists>pre post. xs = pre @ b # post \<and> (\<forall>x \<in> set pre. \<not> p x) \<and> p b
           \<and> findIndex p xs = int (length pre)"
proof -
  from find_js_split[OF assms] obtain pre post where
    s: "xs = pre @ b # post" "\<forall>x \<in> set pre. \<not> p x" "p b" by blast
  then have "findIndex p (pre @ b # post) = int (length pre)"
    by (intro findIndex_first) auto
  with s show ?thesis by blast
qed

lemma find_js_append_new:
  assumes "find_js p xs = Undefined" and "p x"
  shows "find_js p (xs @ [x]) = Obj x"
proof -
  from assms(1) have "\<forall>y \<in> set xs. \<not> p y" by (simp add: find_js_none)
  with assms(2) show ?thesis by (intro find_js_first) auto
qed

section \<open>Facts about the actions\<close>

lemma getCurrentAccount_name:
  assumes "getCurrentAccount w nm = Obj a"
  shows "name (heap w a) = nm"
proof -
  from assms have "find_js (\<lambda>r. name (heap w r) = nm) (accounts (state w)) = Obj a"
    by (simp add: getCurrentAccount_def)
  from find_js_split[OF this] show ?thesis by blast
qed

text \<open>
  Storing, with \<^verbatim>\<open>updateAccount\<close>, the very object that \<^verbatim>\<open>getCurrentAccount\<close> answers
  for its name changes nothing: it is written over itself.
\<close>

lemma updateAccount_same_object:
  assumes "getCurrentAccount w (name (heap w a)) = Obj a"
  shows "updateAccount a w = w"
proof -
  let ?p = "\<lambda>r. name (heap w r) = name (heap w a)"
  from assms have "find_js ?p (accounts (state w)) = Obj a"
    by (simp add: getCurrentAccount_def)
  from find_js_findIndex[OF this] obtain pre post where
    split: "accounts (state w) = pre @ a # post"
    and idx: "findIndex ?p (accounts (state w)) = int (length pre)"
    by blast
  have "(accounts (state w))[length pre := a] = accounts (state w)"
    by (simp add: split)
  then show ?thesis by (simp add: updateAccount_def idx)
qed

lemma name_push_utxo: "name (heap (push_utxo a x w) r) = name (heap w r)"
  by (simp add: push_utxo_def)

lemma state_push_utxo: "state (push_utxo a x w) = state w"
  by (simp add: push_utxo_def)

lemma utxos_push_utxo: "utxos (heap (push_utxo a x w) a) = utxos (heap w a) @ [x]"
  by (simp add: push_utxo_def)

lemma getCurrentAccount_push_utxo:
  "getCurrentAccount (push_utxo a x w) nm = getCurrentAccount w nm"
  by (simp add: getCurrentAccount_def name_push_utxo state_push_utxo)

text \<open>
  \<^verbatim>\<open>find\<close> never answers \<^verbatim>\<open>null\<close>, so the test \<^verbatim>\<open>transaction !== null\<close> of \<^verbatim>\<open>getTx\<close>
  always holds: \<^verbatim>\<open>getTx\<close> answers what \<^verbatim>\<open>find\<close> answered, the transaction or
  \<^verbatim>\<open>undefined\<close>, and neither asks the indexer nor touches the store.
\<close>

lemma getTx_never_fetches:
  "getTx g u an t w =
     (case getCurrentAccount w an of
        Obj a \<Rightarrow> (Inr (find_js (\<lambda>tx. tx_id tx = t) (transactions (heap w a))), w)
      | _ \<Rightarrow> (Inl TypeError, w))"
  by (simp add: getTx_def find_js_not_Null split: js.splits)

text \<open>The outcomes of \<^verbatim>\<open>getUtxo\<close>, case by case.\<close>

lemma getUtxo_hit:
  assumes "getCurrentAccount w an = Obj a"
    and "find_js (\<lambda>u. txid u = t \<and> vout u = v) (utxos (heap w a)) = Obj x"
  shows "getUtxo g u an t v w = (Inr x, w)"
  using assms by (simp add: getUtxo_def)

lemma getUtxo_miss:
  assumes acc: "getCurrentAccount w an = Obj a"
    and miss: "find_js (\<lambda>u. txid u = t \<and> vout u = v) (utxos (heap w a)) = Undefined"
    and tx: "find_js (\<lambda>tx. tx_id tx = t) (transactions (heap w a)) = Obj tx"
    and rng: "0 \<le> v" "v < int (length (tx_vout tx))"
    and x: "x = \<lparr>txid = t, vout = v, utxo_value = out_value (tx_vout tx ! nat v),
               timestamp = tx_timestamp tx, addressTo = address (tx_vout tx ! nat v),
               keychain = external, label = None\<rparr>"
  shows "getUtxo g u an t v w = (Inr x, push_utxo a x w)"
proof -
  have nm: "name (heap (push_utxo a x w) a) = an"
    using acc by (simp add: name_push_utxo getCurrentAccount_name)
  have "getCurrentAccount (push_utxo a x w) (name (heap (push_utxo a x w) a)) = Obj a"
    using acc by (simp add: nm getCurrentAccount_push_utxo)
  then have "updateAccount a (push_utxo a x w) = push_utxo a x w"
    by (rule updateAccount_same_object)
  then show ?thesis
    using acc miss tx rng by (simp add: getUtxo_def getTx_never_fetches x Let_def)
qed

lemma getUtxo_fail_no_tx:
  assumes "getCurrentAccount w an = Obj a"
    and "find_js (\<lambda>u. txid u = t \<and> vout u = v) (utxos (heap w a)) = Undefined"
    and "find_js (\<lambda>tx. tx_id tx = t) (transactions (heap w a)) = Undefined"
  shows "getUtxo g u an t v w = (Inl TypeError, w)"
  using assms by (auto simp: getUtxo_def getTx_never_fetches Let_def)

lemma getUtxo_fail_no_output:
  assumes "getCurrentAccount w an = Obj a"
    and "find_js (\<lambda>u. txid u = t \<and> vout u = v) (utxos (heap w a)) = Undefined"
    and "find_js (\<lambda>tx. tx_id tx = t) (transactions (heap w a)) = Obj tx"
    and "\<not> (0 \<le> v \<and> v < int (length (tx_vout tx)))"
  shows "getUtxo g u an t v w = (Inl TypeError, w)"
  using assms by (auto simp: getUtxo_def getTx_never_fetches Let_def)

lemma getUtxo_success_cases:
  assumes ok: "getUtxo g u an t v w = (Inr x, w1)"
  shows "\<exists>a. getCurrentAccount w an = Obj a \<and>
     (find_js (\<lambda>u. txid u = t \<and> vout u = v) (utxos (heap w a)) = Obj x \<and> w1 = w
      \<or> find_js (\<lambda>u. txid u = t \<and> vout u = v) (utxos (heap w a)) = Undefined
        \<and> txid x = t \<and> vout x = v \<and> label x = None \<and> w1 = push_utxo a x w)"
proof (cases "getCurrentAccount w an")
  case Undefined
  with ok show ?thesis by (simp add: getUtxo_def)
next
  case Null
  with ok show ?thesis by (simp add: getUtxo_def)
next
  case acc: (Obj a)
  let ?k = "\<lambda>u. txid u = t \<and> vout u = v"
  show ?thesis
  proof (cases "find_js ?k (utxos (heap w a))")
    case (Obj x0)
    from getUtxo_hit[OF acc Obj, of g u] ok have "x0 = x" "w1 = w" by simp_all
    with acc Obj show ?thesis by simp
  next
    case Null
    then show ?thesis by (simp add: find_js_not_Null)
  next
    case miss: Undefined
    show ?thesis
    proof (cases "find_js (\<lambda>tx. tx_id tx = t) (transactions (heap w a))")
      case (Obj tx)
      show ?thesis
      proof (cases "0 \<le> v \<and> v < int (length (tx_vout tx))")
        case True
        define y where "y = \<lparr>txid = t, vout = v, utxo_value = out_value (tx_vout tx ! nat v),
               timestamp = tx_timestamp tx, addressTo = address (tx_vout tx ! nat v),
               keychain = external, label = None\<rparr>"
        from True have "0 \<le> v" "v < int (length (tx_vout tx))" by simp_all
        from getUtxo_miss[OF acc miss Obj this y_def, of g u] ok
        have "x = y" "w1 = push_utxo a y w" by simp_all
        moreover have "txid y = t" "vout y = v" "label y = None" by (simp_all add: y_def)
        ultimately show ?thesis using acc miss by simp
      next
        case False
        from getUtxo_fail_no_output[OF acc miss Obj False, of g u] ok show ?thesis by simp
      qed
    next
      case Null
      then show ?thesis by (simp add: find_js_not_Null)
    next
      case Undefined
      from getUtxo_fail_no_tx[OF acc miss Undefined, of g u] ok show ?thesis by simp
    qed
  qed
qed

text \<open>The recipe of \<^verbatim>\<open>setUtxoLabel\<close>, at an index of the array and one past its end.\<close>

lemma produce_label_past_end:
  assumes acc: "getCurrentAccount w an = Obj a"
  shows "produce_label an (int (length (utxos (heap w a)))) l w = (Inl TypeError, w)"
proof -
  let ?p = "\<lambda>r. name (heap w r) = an"
  from acc have "find_js ?p (accounts (state w)) = Obj a"
    by (simp add: getCurrentAccount_def)
  from find_js_findIndex[OF this] obtain pre post where
    split: "accounts (state w) = pre @ a # post"
    and idx: "findIndex ?p (accounts (state w)) = int (length pre)"
    by blast
  have nth: "accounts (state w) ! length pre = a" by (simp add: split)
  have len: "length pre < length (accounts (state w))" by (simp add: split)
  show ?thesis
    using len by (simp add: produce_label_def idx nth Let_def)
qed

lemma produce_label_cached:
  assumes acc: "getCurrentAccount w an = Obj a"
    and us: "utxos (heap w a) = pre @ x # post"
  shows "\<exists>w' a'. produce_label an (int (length pre)) l w = (Inr (), w')
           \<and> getCurrentAccount w' an = Obj a'
           \<and> utxos (heap w' a') = pre @ x\<lparr>label := Some l\<rparr> # post"
proof -
  let ?p = "\<lambda>r. name (heap w r) = an"
  from acc have "find_js ?p (accounts (state w)) = Obj a"
    by (simp add: getCurrentAccount_def)
  from find_js_findIndex[OF this] obtain apre apost where
    split: "accounts (state w) = apre @ a # apost" and apre: "\<forall>r \<in> set apre. \<not> ?p r"
    and a: "?p a" and idx: "findIndex ?p (accounts (state w)) = int (length apre)"
    by blast
  have nth: "accounts (state w) ! length apre = a" by (simp add: split)
  have len: "length apre < length (accounts (state w))" by (simp add: split)
  show ?thesis
  proof (cases "label x = Some l")
    case True
    then have "x\<lparr>label := Some l\<rparr> = x" by simp
    moreover have "produce_label an (int (length pre)) l w = (Inr (), w)"
      using len True by (simp add: produce_label_def idx nth us Let_def)
    ultimately show ?thesis using acc us by simp
  next
    case False
    define n where "n = next_ref w"
    define acct where "acct = (heap w a)\<lparr>utxos := pre @ x\<lparr>label := Some l\<rparr> # post\<rparr>"
    define w' where "w' = w\<lparr>heap := (heap w)(n := acct), next_ref := Suc n,
                            state := (state w)\<lparr>accounts := apre @ n # apost\<rparr>\<rparr>"
    have upd: "(accounts (state w))[length apre := next_ref w] = apre @ next_ref w # apost"
      by (simp add: split)
    have pl: "produce_label an (int (length pre)) l w = (Inr (), w')"
      using len False
      by (simp add: produce_label_def idx nth us Let_def w'_def acct_def n_def upd)
    let ?q = "\<lambda>r. name (heap w' r) = an"
    have qn: "?q n" using a by (simp add: w'_def acct_def)
    have "\<forall>r \<in> set apre. ?q r \<longrightarrow> r = n"
      using apre by (simp add: w'_def)
    from find_js_first_or_same[of apre ?q n apost, OF this qn]
    have "getCurrentAccount w' an = Obj n"
      by (simp add: getCurrentAccount_def) (simp add: w'_def)
    moreover have "utxos (heap w' n) = pre @ x\<lparr>label := Some l\<rparr> # post"
      by (simp add: w'_def acct_def)
    ultimately show ?thesis using pl by blast
  qed
qed

text \<open>The example store, evaluated.\<close>

lemma getCurrentAccount_world_W1: "getCurrentAccount world_W1 ''W1'' = Obj 0"
  by (simp add: getCurrentAccount_def world_W1_def account_W1_def)

lemma getUtxo_world_W1:
  "getUtxo indexer u ''W1'' ''a1'' 0 world_W1 = (Inr utxo_a1, push_utxo 0 utxo_a1 world_W1)"
  by (simp add: getUtxo_def getTx_def getCurrentAccount_def world_W1_def account_W1_def
      tx_a1_def utxo_a1_def push_utxo_def updateAccount_def Let_def)

lemma getUtxo_world_W1_cached:
  "getUtxo indexer u ''W1'' ''a1'' 0 (push_utxo 0 utxo_a1 world_W1)
     = (Inr utxo_a1, push_utxo 0 utxo_a1 world_W1)"
  by (simp add: getUtxo_def getCurrentAccount_def world_W1_def account_W1_def
      utxo_a1_def push_utxo_def)

section \<open>The claims about the accounts store\<close>

subsection \<open>Reading a transaction\<close>

text \<open>
  C1. \<^verbatim>\<open>getTx(accountName, txid)\<close> on a transaction that the account has not cached:
  the claim has it fetched from the indexer, appended to the account's transactions and
  returned. In the store \<open>world_W1\<close> the account \<open>W1\<close> is present and has no transaction
  \<open>b2\<close>; the indexer would answer one. \<^verbatim>\<open>getTx\<close> answers \<^verbatim>\<open>undefined\<close> and leaves the
  store as it was: \<^verbatim>\<open>find\<close> answered \<^verbatim>\<open>undefined\<close>, which passes the test
  \<^verbatim>\<open>transaction !== null\<close>, so the early return is taken.
\<close>

theorem getTx_uncached_returns_undefined:
  "getCurrentAccount world_W1 ''W1'' = Obj 0
   \<and> find_js (\<lambda>tx. tx_id tx = ''b2'') (transactions (heap world_W1 0)) = Undefined
   \<and> getTx indexer ''https://mempool.space/api'' ''W1'' ''b2'' world_W1
       = (Inr Undefined, world_W1)"
  by (simp add: getTx_def getCurrentAccount_def world_W1_def account_W1_def tx_a1_def)

text \<open>
  The cached half of \<^verbatim>\<open>getTx\<close>: a transaction of that id in the account's list is
  returned as it is, and the store is left unchanged.
\<close>

theorem getTx_cached:
  assumes "getCurrentAccount w an = Obj a"
    and "find_js (\<lambda>tx. tx_id tx = t) (transactions (heap w a)) = Obj tx"
  shows "getTx g u an t w = (Inr (Obj tx), w) \<and> tx_id tx = t \<and> tx \<in> set (transactions (heap w a))"
proof -
  from find_js_split[OF assms(2)] have "tx_id tx = t" "tx \<in> set (transactions (heap w a))"
    by auto
  with assms show ?thesis by (simp add: getTx_never_fetches)
qed

theorem getTx_cached_witness:
  "getCurrentAccount world_W1 ''W1'' = Obj 0
   \<and> find_js (\<lambda>tx. tx_id tx = ''a1'') (transactions (heap world_W1 0)) = Obj tx_a1
   \<and> getTx indexer ''https://mempool.space/api'' ''W1'' ''a1'' world_W1
       = (Inr (Obj tx_a1), world_W1)"
proof -
  have acc: "getCurrentAccount world_W1 ''W1'' = Obj 0"
    by (rule getCurrentAccount_world_W1)
  have hit: "find_js (\<lambda>tx. tx_id tx = ''a1'') (transactions (heap world_W1 0)) = Obj tx_a1"
    by (simp add: world_W1_def account_W1_def tx_a1_def)
  from getTx_cached[OF acc hit, of indexer "''https://mempool.space/api''"] acc hit
  show ?thesis by simp
qed

subsection \<open>Labelling a UTXO\<close>

text \<open>
  C2. \<^verbatim>\<open>setUtxoLabel\<close> followed by \<^verbatim>\<open>getUtxo\<close> for the same key, on a UTXO that is not
  cached: the claim has the UTXO fetched and the label set. In \<open>world_W1\<close> the account
  \<open>W1\<close> has cached the transaction \<open>a1\<close> and no UTXO. \<^verbatim>\<open>setUtxoLabel\<close> for output 0 of
  \<open>a1\<close> resolves the UTXO (it is pushed on the account's list, at index 0), takes
  \<^verbatim>\<open>account.utxos.length\<close>, which is 1 by then, as its index, and raises \<^verbatim>\<open>TypeError\<close>
  on \<^verbatim>\<open>utxos[1].label = label\<close>. The \<^verbatim>\<open>getUtxo\<close> that follows answers the UTXO without
  a label.
\<close>

theorem setUtxoLabel_uncached_off_by_one:
  "setUtxoLabel indexer ''https://mempool.space/api'' ''W1'' ''a1'' 0 ''coffee'' world_W1
     = (Inl TypeError, push_utxo 0 utxo_a1 world_W1)
   \<and> utxos (heap (push_utxo 0 utxo_a1 world_W1) 0) = [utxo_a1]
   \<and> getUtxo indexer ''https://mempool.space/api'' ''W1'' ''a1'' 0 (push_utxo 0 utxo_a1 world_W1)
       = (Inr utxo_a1, push_utxo 0 utxo_a1 world_W1)
   \<and> label utxo_a1 = None"
proof -
  have idx: "findIndex (\<lambda>u. txid u = ''a1'' \<and> vout u = 0) (utxos (heap world_W1 0)) = - 1"
    by (simp add: world_W1_def account_W1_def)
  have us: "utxos (heap (push_utxo 0 utxo_a1 world_W1) 0) = [utxo_a1]"
    by (simp add: push_utxo_def world_W1_def account_W1_def)
  have "produce_label ''W1'' 1 ''coffee'' (push_utxo 0 utxo_a1 world_W1)
          = (Inl TypeError, push_utxo 0 utxo_a1 world_W1)"
    by (simp add: produce_label_def push_utxo_def world_W1_def account_W1_def)
  then have "setUtxoLabel indexer ''https://mempool.space/api'' ''W1'' ''a1'' 0 ''coffee'' world_W1
     = (Inl TypeError, push_utxo 0 utxo_a1 world_W1)"
    by (simp add: setUtxoLabel_def getCurrentAccount_world_W1 idx getUtxo_world_W1 us)
  moreover have "label utxo_a1 = None" by (simp add: utxo_a1_def)
  ultimately show ?thesis using us getUtxo_world_W1_cached by simp
qed

text \<open>
  Whatever the store: when the UTXO is not cached, \<^verbatim>\<open>setUtxoLabel\<close> ends with
  \<^verbatim>\<open>TypeError\<close>. Either \<^verbatim>\<open>getUtxo\<close> raises it (no cached transaction, no such output),
  or the index taken after the push is one past the end of the list.
\<close>

theorem setUtxoLabel_uncached_raises:
  assumes acc: "getCurrentAccount w an = Obj a"
    and miss: "find_js (\<lambda>u. txid u = t \<and> vout u = v) (utxos (heap w a)) = Undefined"
  shows "fst (setUtxoLabel g u an t v l w) = Inl TypeError"
proof -
  let ?k = "\<lambda>u. txid u = t \<and> vout u = v"
  from miss have idx: "findIndex ?k (utxos (heap w a)) = - 1"
    by (simp add: find_js_none findIndex_none)
  obtain res w1 where r: "getUtxo g u an t v w = (res, w1)" by (cases "getUtxo g u an t v w")
  show ?thesis
  proof (cases res)
    case (Inl e)
    have "e = TypeError"
    proof (cases "find_js (\<lambda>tx. tx_id tx = t) (transactions (heap w a))")
      case Undefined
      from getUtxo_fail_no_tx[OF acc miss Undefined, of g u] r Inl show ?thesis by simp
    next
      case Null
      then show ?thesis by (simp add: find_js_not_Null)
    next
      case (Obj tx)
      show ?thesis
      proof (cases "0 \<le> v \<and> v < int (length (tx_vout tx))")
        case True
        then have "0 \<le> v" "v < int (length (tx_vout tx))" by simp_all
        from getUtxo_miss[OF acc miss Obj this refl, of g u] r Inl show ?thesis by simp
      next
        case False
        from getUtxo_fail_no_output[OF acc miss Obj False, of g u] r Inl show ?thesis by simp
      qed
    qed
    with r Inl show ?thesis by (simp add: setUtxoLabel_def acc idx)
  next
    case (Inr x)
    with r have ok: "getUtxo g u an t v w = (Inr x, w1)" by simp
    from getUtxo_success_cases[OF ok] acc miss have w1: "w1 = push_utxo a x w" by auto
    have "getCurrentAccount w1 an = Obj a"
      using acc by (simp add: w1 getCurrentAccount_push_utxo)
    from produce_label_past_end[OF this, of l] ok show ?thesis
      by (simp add: setUtxoLabel_def acc idx)
  qed
qed

theorem setUtxoLabel_uncached_raises_witness:
  "getCurrentAccount world_W1 ''W1'' = Obj 0
   \<and> find_js (\<lambda>u. txid u = ''a1'' \<and> vout u = 0) (utxos (heap world_W1 0)) = Undefined
   \<and> fst (setUtxoLabel indexer ''https://mempool.space/api'' ''W1'' ''a1'' 0 ''coffee'' world_W1)
       = Inl TypeError"
proof -
  have miss: "find_js (\<lambda>u. txid u = ''a1'' \<and> vout u = 0) (utxos (heap world_W1 0)) = Undefined"
    by (simp add: world_W1_def account_W1_def)
  from setUtxoLabel_uncached_raises[OF getCurrentAccount_world_W1 miss] miss
  show ?thesis by (simp add: getCurrentAccount_world_W1)
qed

text \<open>
  When the UTXO is cached, \<^verbatim>\<open>setUtxoLabel\<close> succeeds and the \<^verbatim>\<open>getUtxo\<close> that follows
  answers the cached UTXO with the new label.
\<close>

theorem setUtxoLabel_cached_then_getUtxo:
  assumes acc: "getCurrentAccount w an = Obj a"
    and hit: "find_js (\<lambda>u. txid u = t \<and> vout u = v) (utxos (heap w a)) = Obj x"
  shows "\<exists>w'. setUtxoLabel g u an t v l w = (Inr (), w')
           \<and> getUtxo g u an t v w' = (Inr (x\<lparr>label := Some l\<rparr>), w')"
proof -
  let ?k = "\<lambda>u. txid u = t \<and> vout u = v"
  from find_js_findIndex[OF hit] obtain pre post where
    us: "utxos (heap w a) = pre @ x # post" and pre: "\<forall>y \<in> set pre. \<not> ?k y" and kx: "?k x"
    and idx: "findIndex ?k (utxos (heap w a)) = int (length pre)"
    by blast
  from produce_label_cached[OF acc us, of l] obtain w' a' where
    pl: "produce_label an (int (length pre)) l w = (Inr (), w')"
    and acc': "getCurrentAccount w' an = Obj a'"
    and us': "utxos (heap w' a') = pre @ x\<lparr>label := Some l\<rparr> # post"
    by blast
  have set: "setUtxoLabel g u an t v l w = (Inr (), w')"
    using pl by (simp add: setUtxoLabel_def acc idx)
  have "?k (x\<lparr>label := Some l\<rparr>)" using kx by simp
  with pre have "find_js ?k (pre @ x\<lparr>label := Some l\<rparr> # post) = Obj (x\<lparr>label := Some l\<rparr>)"
    by (intro find_js_first) auto
  then have "find_js ?k (utxos (heap w' a')) = Obj (x\<lparr>label := Some l\<rparr>)"
    by (simp only: us')
  from getUtxo_hit[OF acc' this, of g u] set show ?thesis by blast
qed

theorem setUtxoLabel_cached_then_getUtxo_witness:
  "getCurrentAccount (push_utxo 0 utxo_a1 world_W1) ''W1'' = Obj 0
   \<and> find_js (\<lambda>u. txid u = ''a1'' \<and> vout u = 0)
        (utxos (heap (push_utxo 0 utxo_a1 world_W1) 0)) = Obj utxo_a1
   \<and> (\<exists>w'. setUtxoLabel indexer ''https://mempool.space/api'' ''W1'' ''a1'' 0 ''coffee''
              (push_utxo 0 utxo_a1 world_W1) = (Inr (), w')
           \<and> getUtxo indexer ''https://mempool.space/api'' ''W1'' ''a1'' 0 w'
               = (Inr (utxo_a1\<lparr>label := Some ''coffee''\<rparr>), w'))"
proof -
  have acc: "getCurrentAccount (push_utxo 0 utxo_a1 world_W1) ''W1'' = Obj 0"
    by (simp add: getCurrentAccount_push_utxo getCurrentAccount_world_W1)
  have hit: "find_js (\<lambda>u. txid u = ''a1'' \<and> vout u = 0)
        (utxos (heap (push_utxo 0 utxo_a1 world_W1) 0)) = Obj utxo_a1"
    by (simp add: push_utxo_def world_W1_def account_W1_def utxo_a1_def)
  from setUtxoLabel_cached_then_getUtxo[OF acc hit] acc hit show ?thesis by blast
qed

subsection \<open>Reading a UTXO twice\<close>

text \<open>
  C3. \<^verbatim>\<open>getUtxo\<close> is idempotent under sequential calls: when a first call succeeds, a
  second call with the same arguments, made in the store the first call left, answers
  the same UTXO and leaves that store as it is; so it appends nothing, and the length
  of every account's UTXO list is what it was after the first call.
\<close>

theorem getUtxo_idempotent:
  assumes "getUtxo g u an t v w = (Inr x, w1)"
  shows "getUtxo g u an t v w1 = (Inr x, w1)
         \<and> (\<forall>a. length (utxos (heap (snd (getUtxo g u an t v w1)) a))
                  = length (utxos (heap w1 a)))"
proof -
  let ?k = "\<lambda>u. txid u = t \<and> vout u = v"
  from getUtxo_success_cases[OF assms] obtain a where
    acc: "getCurrentAccount w an = Obj a" and
    cases: "find_js ?k (utxos (heap w a)) = Obj x \<and> w1 = w
      \<or> find_js ?k (utxos (heap w a)) = Undefined \<and> txid x = t \<and> vout x = v
        \<and> label x = None \<and> w1 = push_utxo a x w"
    by blast
  from cases have "getUtxo g u an t v w1 = (Inr x, w1)"
  proof
    assume "find_js ?k (utxos (heap w a)) = Obj x \<and> w1 = w"
    with assms show ?thesis by simp
  next
    assume h: "find_js ?k (utxos (heap w a)) = Undefined \<and> txid x = t \<and> vout x = v
        \<and> label x = None \<and> w1 = push_utxo a x w"
    then have "find_js ?k (utxos (heap w a) @ [x]) = Obj x"
      by (intro find_js_append_new) auto
    then have hit: "find_js ?k (utxos (heap w1 a)) = Obj x"
      using h by (simp add: utxos_push_utxo)
    have "getCurrentAccount w1 an = Obj a"
      using h acc by (simp add: getCurrentAccount_push_utxo)
    from getUtxo_hit[OF this hit] show ?thesis .
  qed
  then show ?thesis by simp
qed

theorem getUtxo_idempotent_witness:
  "getUtxo indexer ''https://mempool.space/api'' ''W1'' ''a1'' 0 world_W1
     = (Inr utxo_a1, push_utxo 0 utxo_a1 world_W1)
   \<and> getUtxo indexer ''https://mempool.space/api'' ''W1'' ''a1'' 0 (push_utxo 0 utxo_a1 world_W1)
     = (Inr utxo_a1, push_utxo 0 utxo_a1 world_W1)
   \<and> length (utxos (heap (snd (getUtxo indexer ''https://mempool.space/api'' ''W1'' ''a1'' 0
                                  (push_utxo 0 utxo_a1 world_W1))) 0)) = 1"
proof -
  have first: "getUtxo indexer ''https://mempool.space/api'' ''W1'' ''a1'' 0 world_W1
     = (Inr utxo_a1, push_utxo 0 utxo_a1 world_W1)"
    by (rule getUtxo_world_W1)
  have "length (utxos (heap (push_utxo 0 utxo_a1 world_W1) 0)) = 1"
    by (simp add: push_utxo_def world_W1_def account_W1_def)
  with getUtxo_idempotent[OF first] first show ?thesis by simp
qed

subsection \<open>Adding, replacing and deleting accounts\<close>

text \<open>
  C4, as the code has it. When no account of the store has the name of \<open>A\<close>
  (\<^verbatim>\<open>hasAccountWithName(A.name)\<close> is false), \<^verbatim>\<open>getCurrentAccount(A.name)\<close> right after
  \<^verbatim>\<open>addAccount(A)\<close> answers \<open>A\<close>, the object that was added, unchanged.
  \<^verbatim>\<open>getCurrentAccount\<close> only reads the store, so this holds until the store is mutated.
\<close>

theorem getCurrentAccount_after_addAccount:
  assumes "\<not> hasAccountWithName w (name (heap w a))"
  shows "getCurrentAccount (addAccount a w) (name (heap w a)) = Obj a
         \<and> heap (addAccount a w) a = heap w a"
proof -
  let ?p = "\<lambda>r. name (heap w r) = name (heap w a)"
  from assms have "find_js ?p (accounts (state w)) = Undefined"
    using find_js_not_Null[of ?p "accounts (state w)"]
    by (auto simp: hasAccountWithName_def getCurrentAccount_def split: js.splits)
  then have "\<forall>r \<in> set (accounts (state w)). \<not> ?p r"
    by (simp add: find_js_none)
  then have "find_js ?p (accounts (state w) @ a # []) = Obj a"
    by (intro find_js_first) auto
  then show ?thesis by (simp add: getCurrentAccount_def addAccount_def)
qed

theorem getCurrentAccount_after_addAccount_witness:
  "\<not> hasAccountWithName world_three (name (heap world_three 2))
   \<and> getCurrentAccount (addAccount 2 world_three) ''W2'' = Obj 2
   \<and> heap (addAccount 2 world_three) 2 = account_W2"
  using getCurrentAccount_after_addAccount[of world_three 2]
  by (simp add: hasAccountWithName_def getCurrentAccount_def world_three_def account_W1_def
      account_W2_def)

text \<open>
  C4, as the claim states it, fails when the name is taken. The store \<open>world_three\<close>
  holds an account \<open>W1\<close> (object 0); object 1 is another account of that name, with no
  transaction. After \<^verbatim>\<open>addAccount\<close> of object 1, \<^verbatim>\<open>getCurrentAccount('W1')\<close> answers
  object 0, whose value differs from the account that was added.
\<close>

theorem addAccount_duplicate_name_counterexample:
  "name (heap world_three 1) = ''W1''
   \<and> getCurrentAccount (addAccount 1 world_three) ''W1'' = Obj 0
   \<and> getCurrentAccount (addAccount 1 world_three) ''W1'' \<noteq> Obj 1
   \<and> heap (addAccount 1 world_three) 0 \<noteq> heap world_three 1"
  by (simp add: getCurrentAccount_def addAccount_def world_three_def account_W1_def
      account_W1_fresh_def)

text \<open>
  C5. \<^verbatim>\<open>addAccount(A)\<close> appends \<open>A\<close> whatever the store holds: the accounts list after
  the call is the list before it followed by \<open>A\<close>, so it is one longer and its first
  elements are the old ones. No name is compared, nothing else of the store or of the
  objects changes, and the action has no failing branch.
\<close>

theorem addAccount_appends:
  "accounts (state (addAccount a w)) = accounts (state w) @ [a]
   \<and> length (accounts (state (addAccount a w))) = length (accounts (state w)) + 1
   \<and> take (length (accounts (state w))) (accounts (state (addAccount a w))) = accounts (state w)
   \<and> tags (state (addAccount a w)) = tags (state w)
   \<and> heap (addAccount a w) = heap w"
  by (simp add: addAccount_def)

text \<open>
  C7. \<^verbatim>\<open>updateAccount(A)\<close>: when the accounts list is \<open>pre @ b # post\<close>, no account of
  \<open>pre\<close> has the name of \<open>A\<close> and \<open>b\<close> has it, the list becomes \<open>pre @ A # post\<close> and
  nothing else changes; when no account has that name, the store is left as it is.
\<close>

theorem updateAccount_replaces_first:
  "(\<forall>pre b post. accounts (state w) = pre @ b # post
        \<and> (\<forall>r \<in> set pre. name (heap w r) \<noteq> name (heap w a))
        \<and> name (heap w b) = name (heap w a)
      \<longrightarrow> updateAccount a w = w\<lparr>state := (state w)\<lparr>accounts := pre @ a # post\<rparr>\<rparr>)
   \<and> ((\<forall>r \<in> set (accounts (state w)). name (heap w r) \<noteq> name (heap w a))
      \<longrightarrow> updateAccount a w = w)"
proof (intro conjI allI impI)
  fix pre b post
  assume h: "accounts (state w) = pre @ b # post
        \<and> (\<forall>r \<in> set pre. name (heap w r) \<noteq> name (heap w a))
        \<and> name (heap w b) = name (heap w a)"
  let ?p = "\<lambda>r. name (heap w r) = name (heap w a)"
  from h have "findIndex ?p (pre @ b # post) = int (length pre)"
    by (intro findIndex_first) auto
  with h show "updateAccount a w = w\<lparr>state := (state w)\<lparr>accounts := pre @ a # post\<rparr>\<rparr>"
    by (simp add: updateAccount_def)
next
  assume "\<forall>r \<in> set (accounts (state w)). name (heap w r) \<noteq> name (heap w a)"
  then have "findIndex (\<lambda>r. name (heap w r) = name (heap w a)) (accounts (state w)) = - 1"
    by (simp add: findIndex_none)
  then show "updateAccount a w = w" by (simp add: updateAccount_def)
qed

theorem updateAccount_replaces_first_witness:
  "accounts (state world_four) = [0] @ 1 # [2]
   \<and> name (heap world_four 0) \<noteq> name (heap world_four 3)
   \<and> name (heap world_four 1) = name (heap world_four 3)
   \<and> name (heap world_four 2) = name (heap world_four 3)
   \<and> updateAccount 3 world_four
       = world_four\<lparr>state := (state world_four)\<lparr>accounts := [0, 3, 2]\<rparr>\<rparr>
   \<and> name (heap world_four 0) \<noteq> name (heap world_four 4)
   \<and> name (heap world_four 1) \<noteq> name (heap world_four 4)
   \<and> name (heap world_four 2) \<noteq> name (heap world_four 4)
   \<and> updateAccount 4 world_four = world_four"
proof -
  have l: "accounts (state world_four) = [0] @ 1 # [2]"
    by (simp add: world_four_def)
  have n0: "name (heap world_four 0) \<noteq> name (heap world_four 3)"
    and n1: "name (heap world_four 1) = name (heap world_four 3)"
    and n2: "name (heap world_four 2) = name (heap world_four 3)"
    and m0: "name (heap world_four 0) \<noteq> name (heap world_four 4)"
    and m1: "name (heap world_four 1) \<noteq> name (heap world_four 4)"
    and m2: "name (heap world_four 2) \<noteq> name (heap world_four 4)"
    by (simp_all add: world_four_def account_W1_def account_W1_fresh_def account_W2_def
        account_W1_synced_def account_W3_def)
  have pre: "\<forall>r \<in> set [0]. name (heap world_four r) \<noteq> name (heap world_four 3)"
    using n0 by simp
  have u3: "updateAccount 3 world_four
       = world_four\<lparr>state := (state world_four)\<lparr>accounts := [0] @ 3 # [2]\<rparr>\<rparr>"
    by (rule updateAccount_replaces_first[of world_four 3, THEN conjunct1, THEN spec,
          THEN spec, THEN spec, THEN mp, OF conjI[OF l conjI[OF pre n1]]])
  have none: "\<forall>r \<in> set (accounts (state world_four)).
                name (heap world_four r) \<noteq> name (heap world_four 4)"
    using m0 m1 m2 by (simp add: world_four_def)
  have u4: "updateAccount 4 world_four = world_four"
    by (rule updateAccount_replaces_first[of world_four 4, THEN conjunct2, THEN mp, OF none])
  from l n0 n1 n2 m0 m1 m2 u3 u4 show ?thesis by simp
qed

text \<open>
  C8. After \<^verbatim>\<open>deleteAccounts()\<close> the accounts list is empty, and
  \<^verbatim>\<open>getCurrentAccount(name)\<close> answers \<^verbatim>\<open>undefined\<close> for every name.
\<close>

theorem deleteAccounts_empties:
  "accounts (state (deleteAccounts w)) = []
   \<and> getCurrentAccount (deleteAccounts w) nm = Undefined"
  by (simp add: deleteAccounts_def getCurrentAccount_def)

text \<open>
  C10. \<^verbatim>\<open>deleteAccounts()\<close> leaves the tags of the store as they were.
\<close>

theorem deleteAccounts_keeps_tags:
  "tags (state (deleteAccounts w)) = tags (state w)"
  by (simp add: deleteAccounts_def)

subsection \<open>Synchronising a wallet\<close>

text \<open>
  C6. \<^verbatim>\<open>syncWallet(wallet, A)\<close> leaves the state of the store and every object allocated
  before the call, \<open>A\<close> among them, as they were, whether it succeeds or not. When the
  wallet library synchronises the wallet and gives its data, \<^verbatim>\<open>syncWallet\<close> answers a
  new object, whose value is that of \<open>A\<close> with \<open>transactions\<close>, \<open>utxos\<close> and
  \<open>summary\<close> replaced by the ones the library gave for the synchronised wallet; and an
  account it answers is always such a one: its name and its other fields are those of
  \<open>A\<close>.
\<close>

theorem syncWallet_returns_copy:
  "state (snd (syncWallet S C G bc wallet a w)) = state w
   \<and> (\<forall>q. q < next_ref w \<longrightarrow> heap (snd (syncWallet S C G bc wallet a w)) q = heap w q)
   \<and> (\<forall>wallet' d.
        S wallet (backend bc)
          (C (backend bc) (url bc)
             \<lparr>opts_retries = retries bc, opts_stopGap = stopGap bc,
              opts_timeout = timeout bc\<rparr>) = Inr wallet'
        \<and> G wallet' (network bc) = Inr d
        \<longrightarrow> syncWallet S C G bc wallet a w
              = (Inr (next_ref w),
                 w\<lparr>heap := (heap w)(next_ref w :=
                      (heap w a)\<lparr>transactions := wd_transactions d,
                                 utxos := wd_utxos d, summary := wd_summary d\<rparr>),
                   next_ref := Suc (next_ref w)\<rparr>))
   \<and> (\<forall>r w'. syncWallet S C G bc wallet a w = (Inr r, w') \<longrightarrow>
        r = next_ref w \<and> next_ref w' = Suc r
        \<and> (\<exists>wallet' d.
              S wallet (backend bc)
                (C (backend bc) (url bc)
                   \<lparr>opts_retries = retries bc, opts_stopGap = stopGap bc,
                    opts_timeout = timeout bc\<rparr>) = Inr wallet'
              \<and> G wallet' (network bc) = Inr d
              \<and> heap w' r = (heap w a)\<lparr>transactions := wd_transactions d,
                                        utxos := wd_utxos d, summary := wd_summary d\<rparr>)
        \<and> name (heap w' r) = name (heap w a) \<and> other (heap w' r) = other (heap w a))"
proof -
  have frame_state: "state (snd (syncWallet S C G bc wallet a w)) = state w"
    by (simp add: syncWallet_def Let_def split: sum.splits)
  have frame_heap:
    "\<forall>q. q < next_ref w \<longrightarrow> heap (snd (syncWallet S C G bc wallet a w)) q = heap w q"
    by (simp add: syncWallet_def Let_def split: sum.splits)
  have returns: "\<forall>wallet' d.
        S wallet (backend bc)
          (C (backend bc) (url bc)
             \<lparr>opts_retries = retries bc, opts_stopGap = stopGap bc,
              opts_timeout = timeout bc\<rparr>) = Inr wallet'
        \<and> G wallet' (network bc) = Inr d
        \<longrightarrow> syncWallet S C G bc wallet a w
              = (Inr (next_ref w),
                 w\<lparr>heap := (heap w)(next_ref w :=
                      (heap w a)\<lparr>transactions := wd_transactions d,
                                 utxos := wd_utxos d, summary := wd_summary d\<rparr>),
                   next_ref := Suc (next_ref w)\<rparr>)"
    by (simp add: syncWallet_def Let_def)
  have result: "\<forall>r w'. syncWallet S C G bc wallet a w = (Inr r, w') \<longrightarrow>
        r = next_ref w \<and> next_ref w' = Suc r
        \<and> (\<exists>wallet' d.
              S wallet (backend bc)
                (C (backend bc) (url bc)
                   \<lparr>opts_retries = retries bc, opts_stopGap = stopGap bc,
                    opts_timeout = timeout bc\<rparr>) = Inr wallet'
              \<and> G wallet' (network bc) = Inr d
              \<and> heap w' r = (heap w a)\<lparr>transactions := wd_transactions d,
                                        utxos := wd_utxos d, summary := wd_summary d\<rparr>)
        \<and> name (heap w' r) = name (heap w a) \<and> other (heap w' r) = other (heap w a)"
    by (auto simp: syncWallet_def Let_def split: sum.splits)
  from frame_state frame_heap returns result show ?thesis by (intro conjI)
qed

theorem syncWallet_returns_copy_witness:
  "sample_syncWallet 0 (backend blockchain_signet)
       (sample_getBlockchainConfig (backend blockchain_signet) (url blockchain_signet)
          \<lparr>opts_retries = retries blockchain_signet, opts_stopGap = stopGap blockchain_signet,
           opts_timeout = timeout blockchain_signet\<rparr>) = Inr 1
   \<and> sample_getWalletData 1 (network blockchain_signet)
       = Inr \<lparr>wd_transactions = [tx_a1], wd_utxos = [utxo_a1], wd_summary = ()\<rparr>
   \<and> syncWallet sample_syncWallet sample_getBlockchainConfig sample_getWalletData
            blockchain_signet 0 0 world_W1
       = (Inr 1, world_W1\<lparr>heap := (heap world_W1)(1 :=
            account_W1\<lparr>transactions := [tx_a1], utxos := [utxo_a1], summary := ()\<rparr>),
          next_ref := 2\<rparr>)
   \<and> heap (snd (syncWallet sample_syncWallet sample_getBlockchainConfig sample_getWalletData
            blockchain_signet 0 0 world_W1)) 0 = account_W1
   \<and> state (snd (syncWallet sample_syncWallet sample_getBlockchainConfig sample_getWalletData
            blockchain_signet 0 0 world_W1)) = state world_W1
   \<and> syncWallet sample_syncWallet sample_getBlockchainConfig sample_getWalletData
            blockchain_signet 0 1 world_three
       = (Inr 3, world_three\<lparr>heap := (heap world_three)(3 :=
            account_W1_fresh\<lparr>transactions := [tx_a1], utxos := [utxo_a1], summary := ()\<rparr>),
          next_ref := 4\<rparr>)
   \<and> heap (snd (syncWallet sample_syncWallet sample_getBlockchainConfig sample_getWalletData
            blockchain_signet 0 1 world_three)) 1 = account_W1_fresh"
proof -
  have s: "sample_syncWallet 0 (backend blockchain_signet)
       (sample_getBlockchainConfig (backend blockchain_signet) (url blockchain_signet)
          \<lparr>opts_retries = retries blockchain_signet, opts_stopGap = stopGap blockchain_signet,
           opts_timeout = timeout blockchain_signet\<rparr>) = Inr 1"
    by (simp add: sample_syncWallet_def)
  have g: "sample_getWalletData 1 (network blockchain_signet)
       = Inr \<lparr>wd_transactions = [tx_a1], wd_utxos = [utxo_a1], wd_summary = ()\<rparr>"
    by (simp add: sample_getWalletData_def)
  have h1: "next_ref world_W1 = 1" "heap world_W1 0 = account_W1"
    by (simp_all add: world_W1_def)
  have h3: "next_ref world_three = 3" "heap world_three 1 = account_W1_fresh"
    by (simp_all add: world_three_def)
  note r1 = syncWallet_returns_copy[of sample_syncWallet sample_getBlockchainConfig
         sample_getWalletData blockchain_signet 0 0 world_W1,
         THEN conjunct2, THEN conjunct2, THEN conjunct1, THEN spec, THEN spec, THEN mp,
         OF conjI[OF s g]]
  note r3 = syncWallet_returns_copy[of sample_syncWallet sample_getBlockchainConfig
         sample_getWalletData blockchain_signet 0 1 world_three,
         THEN conjunct2, THEN conjunct2, THEN conjunct1, THEN spec, THEN spec, THEN mp,
         OF conjI[OF s g]]
  have run1: "syncWallet sample_syncWallet sample_getBlockchainConfig sample_getWalletData
            blockchain_signet 0 0 world_W1
       = (Inr 1, world_W1\<lparr>heap := (heap world_W1)(1 :=
            account_W1\<lparr>transactions := [tx_a1], utxos := [utxo_a1], summary := ()\<rparr>),
          next_ref := 2\<rparr>)"
    using r1 h1 by simp
  have run3: "syncWallet sample_syncWallet sample_getBlockchainConfig sample_getWalletData
            blockchain_signet 0 1 world_three
       = (Inr 3, world_three\<lparr>heap := (heap world_three)(3 :=
            account_W1_fresh\<lparr>transactions := [tx_a1], utxos := [utxo_a1], summary := ()\<rparr>),
          next_ref := 4\<rparr>)"
    using r3 h3 by simp
  have f1: "heap (snd (syncWallet sample_syncWallet sample_getBlockchainConfig
            sample_getWalletData blockchain_signet 0 0 world_W1)) 0 = account_W1"
    using run1 h1 by simp
  have f2: "state (snd (syncWallet sample_syncWallet sample_getBlockchainConfig
            sample_getWalletData blockchain_signet 0 0 world_W1)) = state world_W1"
    by (simp add: run1)
  have f3: "heap (snd (syncWallet sample_syncWallet sample_getBlockchainConfig
            sample_getWalletData blockchain_signet 0 1 world_three)) 1 = account_W1_fresh"
    using run3 h3 by simp
  from s g run1 f1 f2 run3 f3 show ?thesis by (intro conjI)
qed

section \<open>The claim about the label import\<close>

text \<open>
  C9. Importing labels from text that the selected parser rejects: the error the parser
  raised is the outcome of the import, from the clipboard and from a file alike. Nothing
  catches it; the store's import action is not reached, nothing is logged and the screen
  does not navigate back.
\<close>

theorem import_parse_error_uncaught:
  "((if importType = ''JSON'' then JSON_parse c else CSVtoLabels c) = Inl e \<longrightarrow>
      importLabelsFromClipboard JSON_parse CSVtoLabels act importType c accountId ui
        = (Inl e, ui))
   \<and> (pickFile (if importType = ''JSON'' then ''application/json'' else ''text/csv'') = Inr c
        \<and> (if importType = ''JSON'' then JSON_parse c else CSVtoLabels c) = Inl e \<longrightarrow>
      importLabels pickFile JSON_parse CSVtoLabels act importType accountId ui = (Inl e, ui))"
  by (simp add: importLabelsFromClipboard_def importLabels_def)

theorem import_parse_error_uncaught_witness:
  "importLabelsFromClipboard (\<lambda>s. if s = ''{'' then Inl SyntaxError else Inr s) Inr
      (\<lambda>i l st. (Inr (), l # st)) ''JSON'' ''{'' ''W1''
      \<lparr>store = [], console = [], went_back = False\<rparr>
     = (Inl SyntaxError, \<lparr>store = [], console = [], went_back = False\<rparr>)
   \<and> importLabelsFromClipboard Inr (\<lambda>s. if s = ''x'' then Inl (Rejected ''bad csv'') else Inr s)
      (\<lambda>i l st. (Inr (), l # st)) ''CSV'' ''x'' ''W1''
      \<lparr>store = [], console = [], went_back = False\<rparr>
     = (Inl (Rejected ''bad csv''), \<lparr>store = [], console = [], went_back = False\<rparr>)
   \<and> importLabels (\<lambda>t. Inr ''{'') (\<lambda>s. if s = ''{'' then Inl SyntaxError else Inr s) Inr
      (\<lambda>i l st. (Inr (), l # st)) ''JSON'' ''W1''
      \<lparr>store = [], console = [], went_back = False\<rparr>
     = (Inl SyntaxError, \<lparr>store = [], console = [], went_back = False\<rparr>)"
  using import_parse_error_uncaught[of "''JSON''" "\<lambda>s. if s = ''{'' then Inl SyntaxError else Inr s"
          "''{''" Inr SyntaxError "\<lambda>i l st. (Inr (), l # st)" "''W1''"
          "\<lparr>store = [], console = [], went_back = False\<rparr>" "\<lambda>t. Inr ''{''"]
        import_parse_error_uncaught[of "''CSV''" Inr "''x''"
          "\<lambda>s. if s = ''x'' then Inl (Rejected ''bad csv'') else Inr s" "Rejected ''bad csv''"
          "\<lambda>i l st. (Inr (), l # st)" "''W1''"
          "\<lparr>store = [], console = [], went_back = False\<rparr>" "\<lambda>t. Inr ''x''"]
  by simp

end
